theory Spec2Isabelle
  imports Complex_Main "HOL-Library.Multiset"
begin

section \<open>The execution engine of lada\_v2\<close>

text \<open>
  A shallow embedding of the execution engine: the step graph
  (\<^verbatim>\<open>core/step_graph.py\<close>), the task state machine (\<^verbatim>\<open>core/state_machine.py\<close>),
  the error classifier and the retry policy (\<^verbatim>\<open>core/error_classifier.py\<close>,
  \<^verbatim>\<open>utils/retry_policy.py\<close>), the rollback manager (\<^verbatim>\<open>core/rollback_manager.py\<close>),
  the watchdog (\<^verbatim>\<open>utils/watchdog.py\<close>), the execution-mode gate
  (\<^verbatim>\<open>core/execution_context.py\<close>) and the orchestrator (\<^verbatim>\<open>core/orchestrator.py\<close>).

  Conventions. A Python exception is a value of the type \<open>error\<close>. A dictionary with the
  keys \<^verbatim>\<open>action\<close>, \<^verbatim>\<open>value\<close>, \<^verbatim>\<open>method\<close> is a record. \<^verbatim>\<open>datetime.now()\<close> is a parameter
  (microseconds); \<^verbatim>\<open>time.monotonic()\<close> is a rational number of seconds. Sleeping and
  logging have no effect on the values computed and are left out.
\<close>

subsection \<open>Exceptions\<close>

datatype TaskState =
  INIT | PLANNED | EXECUTING | VERIFYING | RECOVERING | TS_SUCCESS | TS_FAILED | CANCELLED

datatype error =
    GraphBuildError string
  | GraphMutationError string
  | IllegalTransitionError TaskState TaskState
  | AttributeError string
  | KeyError string
  | RecursionError

subsection \<open>Plans and steps\<close>

record step =
  s_action :: string
  s_value :: string
  s_method :: string

record plan =
  task :: string
  steps :: "step list"

text \<open>\<^verbatim>\<open>d.get(k, default)\<close> on a constant table.\<close>

definition dict_get :: "(string \<times> 'v) list \<Rightarrow> string \<Rightarrow> 'v \<Rightarrow> 'v" where
  "dict_get tbl k d = (case map_of tbl k of None \<Rightarrow> d | Some v \<Rightarrow> v)"

subsection \<open>StepNode\<close>

datatype StepStatus = PENDING | RUNNING | SUCCESS | FAILED | SKIPPED | ROLLED_BACK

definition ACTION_TIMEOUT :: "(string \<times> rat) list" where
  "ACTION_TIMEOUT =
    [(''open_app'', 12), (''open_terminal'', 8), (''navigate'', 30), (''find_and_click'', 8),
     (''click_button'', 6), (''click_result'', 6), (''type_text'', 5), (''search'', 5),
     (''verify_window'', 15), (''focus_window'', 5), (''close_window'', 5),
     (''wait_for_element'', 20), (''set_volume'', 4), (''set_brightness'', 4),
     (''run_command'', 30), (''scroll'', 3), (''get_text'', 5), (''open_menu'', 5)]"

definition DEFAULT_TIMEOUT :: rat where
  "DEFAULT_TIMEOUT = 10"

definition ACTION_MAX_RETRIES :: "(string \<times> nat) list" where
  "ACTION_MAX_RETRIES =
    [(''open_app'', 2), (''navigate'', 3), (''find_and_click'', 3), (''click_button'', 3),
     (''type_text'', 2), (''verify_window'', 3), (''run_command'', 2),
     (''wait_for_element'', 2)]"

definition DEFAULT_MAX_RETRIES :: nat where
  "DEFAULT_MAX_RETRIES = 3"

definition ROLLBACK_MAP :: "(string \<times> string option) list" where
  "ROLLBACK_MAP =
    [(''open_app'', Some ''close_window''), (''open_terminal'', Some ''close_window''),
     (''navigate'', None), (''find_and_click'', None), (''click_button'', None),
     (''type_text'', None), (''set_volume'', None), (''set_brightness'', None),
     (''focus_window'', None), (''close_window'', Some ''open_app'')]"

record StepNode =
  step_id :: string
  seq_num :: nat
  action :: string
  val :: string
  method_hint :: string
  depends_on :: "string list"
  timeout_s :: rat
  max_retries :: nat
  rollback_action :: "string option"
  status :: StepStatus
  attempts :: nat
  error :: string
  started_at :: "int option"
  finished_at :: "int option"
  method_used :: string

definition mark_running :: "int \<Rightarrow> StepNode \<Rightarrow> StepNode" where
  "mark_running now n =
     (if status n = SUCCESS then n
      else n\<lparr>status := RUNNING, started_at := Some now, attempts := attempts n + 1\<rparr>)"

definition mark_success :: "int \<Rightarrow> string \<Rightarrow> StepNode \<Rightarrow> StepNode" where
  "mark_success now m n = n\<lparr>status := SUCCESS, finished_at := Some now, method_used := m\<rparr>"

definition mark_failed :: "int \<Rightarrow> string \<Rightarrow> StepNode \<Rightarrow> StepNode" where
  "mark_failed now e n = n\<lparr>status := FAILED, finished_at := Some now, error := e\<rparr>"

definition mark_skipped :: "string \<Rightarrow> StepNode \<Rightarrow> StepNode" where
  "mark_skipped reason n = n\<lparr>status := SKIPPED, error := reason\<rparr>"

definition is_done :: "StepNode \<Rightarrow> bool" where
  "is_done n = (status n = SUCCESS \<or> status n = SKIPPED)"

definition can_retry :: "StepNode \<Rightarrow> bool" where
  "can_retry n = (attempts n < max_retries n \<and> \<not> is_done n)"

definition reset_for_retry :: "StepNode \<Rightarrow> StepNode" where
  "reset_for_retry n = n\<lparr>status := PENDING, error := [], started_at := None, finished_at := None\<rparr>"

definition to_step_dict :: "StepNode \<Rightarrow> step" where
  "to_step_dict n = \<lparr>s_action = action n, s_value = val n, s_method = method_hint n\<rparr>"

text \<open>The truth value of \<^verbatim>\<open>node.rollback_action\<close>: neither \<^verbatim>\<open>None\<close> nor the empty string.\<close>

definition has_rollback :: "StepNode \<Rightarrow> bool" where
  "has_rollback n = (case rollback_action n of None \<Rightarrow> False | Some a \<Rightarrow> a \<noteq> [])"

subsection \<open>StepGraph\<close>

text \<open>
  \<^verbatim>\<open>_id_index\<close> holds references to the node objects of \<^verbatim>\<open>nodes\<close>. The model stores the
  position of the node in \<^verbatim>\<open>nodes\<close>, so that a change of a node's runtime state is seen
  through the index, as it is in the source.
\<close>

record StepGraph =
  nodes :: "StepNode list"
  task_name :: string
  id_index :: "string \<rightharpoonup> nat"
  frozen :: bool

definition empty_graph :: StepGraph where
  "empty_graph = \<lparr>nodes = [], task_name = [], id_index = Map.empty, frozen = False\<rparr>"

definition get_node :: "StepGraph \<Rightarrow> string \<Rightarrow> StepNode option" where
  "get_node g nid =
     (case id_index g nid of
        None \<Rightarrow> None
      | Some i \<Rightarrow> if i < length (nodes g) then Some (nodes g ! i) else None)"

text \<open>Decimal digits of a number, as \<^verbatim>\<open>f"{i+1}"\<close> prints them.\<close>

definition digit_char :: "nat \<Rightarrow> char" where
  "digit_char d = ''0123456789'' ! d"

fun str_nat :: "nat \<Rightarrow> string" where
  "str_nat n = (if n < 10 then [digit_char n] else str_nat (n div 10) @ [digit_char (n mod 10)])"

declare str_nat.simps [simp del]

text \<open>
  \<^verbatim>\<open>uuid.uuid4().hex[:6]\<close> is random; \<open>uu i\<close> is the string drawn for the step at
  position \<open>i\<close>.
\<close>

definition make_node :: "(nat \<Rightarrow> string) \<Rightarrow> nat \<Rightarrow> string option \<Rightarrow> step \<Rightarrow> StepNode" where
  "make_node uu i prev_id s =
     \<lparr>step_id = ''s'' @ str_nat (i + 1) @ ''_'' @ uu i,
      seq_num = i + 1,
      action = s_action s,
      val = s_value s,
      method_hint = s_method s,
      depends_on = (case prev_id of None \<Rightarrow> [] | Some p \<Rightarrow> if p = [] then [] else [p]),
      timeout_s = dict_get ACTION_TIMEOUT (s_action s) DEFAULT_TIMEOUT,
      max_retries = dict_get ACTION_MAX_RETRIES (s_action s) DEFAULT_MAX_RETRIES,
      rollback_action = dict_get ROLLBACK_MAP (s_action s) None,
      status = PENDING, attempts = 0, error = [], started_at = None, finished_at = None,
      method_used = []\<rparr>"

text \<open>
  The two statements that add a node to a graph (\<^verbatim>\<open>graph.nodes.append(node)\<close> and
  \<^verbatim>\<open>graph._id_index[node.step_id] = node\<close>, in the loop of \<^verbatim>\<open>from_plan\<close>). They do not
  call \<^verbatim>\<open>_assert_mutable\<close>; no statement of the repository does.
\<close>

definition append_node :: "StepGraph \<Rightarrow> StepNode \<Rightarrow> StepGraph" where
  "append_node g n =
     g\<lparr>nodes := nodes g @ [n], id_index := (id_index g)(step_id n \<mapsto> length (nodes g))\<rparr>"

fun build_nodes :: "(nat \<Rightarrow> string) \<Rightarrow> nat \<Rightarrow> string option \<Rightarrow> step list \<Rightarrow> StepGraph \<Rightarrow> StepGraph" where
  "build_nodes uu i prev_id [] g = g"
| "build_nodes uu i prev_id (s # ss) g =
     (let n = make_node uu i prev_id s
      in build_nodes uu (i + 1) (Some (step_id n)) ss (append_node g n))"

text \<open>
  \<^verbatim>\<open>_validate\<close>. The orphan check walks \<^verbatim>\<open>nodes\<close>; the cycle check is a depth-first
  search over the ids of the index, with the sets \<^verbatim>\<open>visited\<close> and \<^verbatim>\<open>rec_stack\<close>. The
  recursion of \<^verbatim>\<open>dfs\<close> is as deep as the longest path it follows; the model gives it a
  depth budget, and \<open>RecursionError\<close> is the result when the budget is used up.
\<close>

fun orphan_deps :: "StepGraph \<Rightarrow> string \<Rightarrow> string list \<Rightarrow> error option" where
  "orphan_deps g nid [] = None"
| "orphan_deps g nid (d # ds) =
     (if id_index g d = None
      then Some (GraphBuildError (''Node '' @ nid @ '' depends on unknown ID: '' @ d))
      else orphan_deps g nid ds)"

fun orphan_check :: "StepGraph \<Rightarrow> StepNode list \<Rightarrow> error option" where
  "orphan_check g [] = None"
| "orphan_check g (n # ns) =
     (case orphan_deps g (step_id n) (depends_on n) of
        Some e \<Rightarrow> Some e
      | None \<Rightarrow> orphan_check g ns)"

type_synonym dfs_state = "string set \<times> string set"

fun dfs :: "StepGraph \<Rightarrow> nat \<Rightarrow> string \<Rightarrow> dfs_state \<Rightarrow> error + dfs_state"
  and dfs_deps :: "StepGraph \<Rightarrow> nat \<Rightarrow> string list \<Rightarrow> dfs_state \<Rightarrow> error + dfs_state" where
  "dfs g 0 nid st = Inl RecursionError"
| "dfs g (Suc k) nid st =
     (case get_node g nid of
        None \<Rightarrow> Inl (KeyError nid)
      | Some n \<Rightarrow>
          (case dfs_deps g k (depends_on n) (insert nid (fst st), insert nid (snd st)) of
             Inl e \<Rightarrow> Inl e
           | Inr st' \<Rightarrow> Inr (fst st', snd st' - {nid})))"
| "dfs_deps g k [] st = Inr st"
| "dfs_deps g k (d # ds) st =
     (if d \<notin> fst st then
        (case dfs g k d st of Inl e \<Rightarrow> Inl e | Inr st' \<Rightarrow> dfs_deps g k ds st')
      else if d \<in> snd st then
        Inl (GraphBuildError (''Circular dependency detected involving node: '' @ d))
      else dfs_deps g k ds st)"

fun dfs_all :: "StepGraph \<Rightarrow> nat \<Rightarrow> string list \<Rightarrow> dfs_state \<Rightarrow> error + dfs_state" where
  "dfs_all g k [] st = Inr st"
| "dfs_all g k (nid # rest) st =
     (if nid \<notin> fst st then
        (case dfs g k nid st of Inl e \<Rightarrow> Inl e | Inr st' \<Rightarrow> dfs_all g k rest st')
      else dfs_all g k rest st)"

text \<open>
  \<^verbatim>\<open>for nid in ids\<close> iterates over a set, in an order that Python does not fix: \<open>ord\<close> is
  the order in which the keys of the index are visited.
\<close>

definition validate :: "string list \<Rightarrow> StepGraph \<Rightarrow> error + unit" where
  "validate ord g =
     (case orphan_check g (nodes g) of
        Some e \<Rightarrow> Inl e
      | None \<Rightarrow>
          (case dfs_all g (Suc (length (nodes g))) ord ({}, {}) of
             Inl e \<Rightarrow> Inl e
           | Inr st \<Rightarrow> Inr ()))"

definition build_graph :: "(nat \<Rightarrow> string) \<Rightarrow> plan \<Rightarrow> StepGraph" where
  "build_graph uu p = build_nodes uu 0 None (steps p) (empty_graph\<lparr>task_name := task p\<rparr>)"

definition from_plan ::
  "(nat \<Rightarrow> string) \<Rightarrow> (string list \<Rightarrow> string list) \<Rightarrow> plan \<Rightarrow> error + StepGraph" where
  "from_plan uu set_order p =
     (if steps p = [] then Inl (GraphBuildError ''Plan has no steps.'')
      else
        (let g = build_graph uu p
         in case validate (set_order (map step_id (nodes g))) g of
              Inl e \<Rightarrow> Inl e
            | Inr u \<Rightarrow> Inr g))"

definition freeze :: "StepGraph \<Rightarrow> StepGraph" where
  "freeze g = g\<lparr>frozen := True\<rparr>"

definition assert_mutable :: "StepGraph \<Rightarrow> error + unit" where
  "assert_mutable g =
     (if frozen g
      then Inl (GraphMutationError
        ''Cannot modify frozen StepGraph during execution. Create a new graph to replan.'')
      else Inr ())"

definition deps_ok :: "StepGraph \<Rightarrow> StepNode \<Rightarrow> bool" where
  "deps_ok g n =
     list_all (\<lambda>d. case get_node g d of None \<Rightarrow> True | Some dep \<Rightarrow> is_done dep) (depends_on n)"

text \<open>
  \<^verbatim>\<open>pending_nodes\<close> returns node objects, which the orchestrator then mutates; the model
  returns their positions.
\<close>

definition pending_nodes :: "StepGraph \<Rightarrow> nat list" where
  "pending_nodes g =
     filter (\<lambda>i. status (nodes g ! i) = PENDING \<and> deps_ok g (nodes g ! i)) [0..<length (nodes g)]"

definition is_complete :: "StepGraph \<Rightarrow> bool" where
  "is_complete g = list_all is_done (nodes g)"

definition has_failed :: "StepGraph \<Rightarrow> bool" where
  "has_failed g = list_ex (\<lambda>n. status n = FAILED) (nodes g)"

definition failed_nodes :: "StepGraph \<Rightarrow> StepNode list" where
  "failed_nodes g = filter (\<lambda>n. status n = FAILED) (nodes g)"

definition progress :: "StepGraph \<Rightarrow> nat \<times> nat" where
  "progress g = (length (filter is_done (nodes g)), length (nodes g))"

text \<open>The dictionaries built by the rollback queries: a step and the key \<^verbatim>\<open>_for\<close>.\<close>

record rollback_dict =
  rd_step :: step
  rd_for :: string

definition rollback_of :: "StepNode \<Rightarrow> rollback_dict" where
  "rollback_of n =
     \<lparr>rd_step = \<lparr>s_action = (case rollback_action n of None \<Rightarrow> [] | Some a \<Rightarrow> a), s_value = val n,
                 s_method = ''system''\<rparr>,
      rd_for = step_id n\<rparr>"

fun rollback_scan :: "string \<Rightarrow> bool \<Rightarrow> StepNode list \<Rightarrow> rollback_dict list" where
  "rollback_scan fid found [] = []"
| "rollback_scan fid found (n # ns) =
     (let found' = (found \<or> step_id n = fid)
      in if found' \<and> status n = SUCCESS \<and> has_rollback n
         then rollback_of n # rollback_scan fid found' ns
         else rollback_scan fid found' ns)"

definition rollback_steps_after :: "StepGraph \<Rightarrow> string \<Rightarrow> rollback_dict list" where
  "rollback_steps_after g failed_step_id = rollback_scan failed_step_id False (rev (nodes g))"

definition graph_rollback_all :: "StepGraph \<Rightarrow> rollback_dict list" where
  "graph_rollback_all g =
     map rollback_of (filter (\<lambda>n. status n = SUCCESS \<and> has_rollback n) (rev (nodes g)))"

fun replan_scan :: "string \<Rightarrow> bool \<Rightarrow> StepNode list \<Rightarrow> StepNode list" where
  "replan_scan fid retrying [] = []"
| "replan_scan fid retrying (n # ns) =
     (let r = (retrying \<or> step_id n = fid)
      in (if r then reset_for_retry n else n) # replan_scan fid r ns)"

definition replan_from :: "StepGraph \<Rightarrow> string \<Rightarrow> StepGraph" where
  "replan_from g failed_step_id =
     g\<lparr>nodes := replan_scan failed_step_id False (nodes g), frozen := True\<rparr>"


subsection \<open>TaskStateMachine\<close>

definition ALLOWED :: "TaskState \<Rightarrow> TaskState set" where
  "ALLOWED s =
     (case s of
        INIT \<Rightarrow> {PLANNED, CANCELLED}
      | PLANNED \<Rightarrow> {EXECUTING, TS_FAILED, CANCELLED}
      | EXECUTING \<Rightarrow> {VERIFYING, RECOVERING, TS_FAILED}
      | VERIFYING \<Rightarrow> {EXECUTING, RECOVERING, TS_SUCCESS, TS_FAILED}
      | RECOVERING \<Rightarrow> {EXECUTING, VERIFYING, PLANNED, TS_FAILED}
      | TS_SUCCESS \<Rightarrow> {INIT}
      | TS_FAILED \<Rightarrow> {INIT}
      | CANCELLED \<Rightarrow> {INIT})"

definition TERMINAL_STATES :: "TaskState set" where
  "TERMINAL_STATES = {TS_SUCCESS, TS_FAILED, CANCELLED}"

text \<open>
  \<^verbatim>\<open>_validate\<close> followed by \<^verbatim>\<open>_apply\<close>, on the field \<^verbatim>\<open>_state\<close>. The history, the step
  information and the task start time do not influence any transition and are left out.
\<close>

definition transition :: "TaskState \<Rightarrow> TaskState \<Rightarrow> error + TaskState" where
  "transition cur new_state =
     (if new_state \<notin> ALLOWED cur then Inl (IllegalTransitionError cur new_state)
      else if cur \<in> TERMINAL_STATES \<and> new_state \<noteq> INIT
           then Inl (IllegalTransitionError cur new_state)
      else Inr new_state)"

definition force_reset :: "TaskState \<Rightarrow> TaskState" where
  "force_reset cur = INIT"

subsection \<open>ErrorClassifier\<close>

datatype ErrorClass =
    ELEMENT_NOT_FOUND | WINDOW_NOT_OPEN | TIMEOUT | PROCESS_DEAD | PERMISSION_DENIED
  | BROWSER_CRASH | NETWORK_ERROR | SCHEMA_INVALID | ACCESSIBILITY_FAIL | CV_NO_MATCH
  | COMMAND_FAILED | UNKNOWN

definition error_class_value :: "ErrorClass \<Rightarrow> string" where
  "error_class_value c =
     (case c of
        ELEMENT_NOT_FOUND \<Rightarrow> ''element_not_found'' | WINDOW_NOT_OPEN \<Rightarrow> ''window_not_open''
      | TIMEOUT \<Rightarrow> ''timeout'' | PROCESS_DEAD \<Rightarrow> ''process_dead''
      | PERMISSION_DENIED \<Rightarrow> ''permission_denied'' | BROWSER_CRASH \<Rightarrow> ''browser_crash''
      | NETWORK_ERROR \<Rightarrow> ''network_error'' | SCHEMA_INVALID \<Rightarrow> ''schema_invalid''
      | ACCESSIBILITY_FAIL \<Rightarrow> ''accessibility_fail'' | CV_NO_MATCH \<Rightarrow> ''cv_no_match''
      | COMMAND_FAILED \<Rightarrow> ''command_failed'' | UNKNOWN \<Rightarrow> ''unknown'')"

definition RECOVERY_STRATEGY :: "ErrorClass \<Rightarrow> string" where
  "RECOVERY_STRATEGY c =
     (case c of
        ELEMENT_NOT_FOUND \<Rightarrow> ''switch_method'' | WINDOW_NOT_OPEN \<Rightarrow> ''reopen_app''
      | TIMEOUT \<Rightarrow> ''retry_with_longer_wait'' | PROCESS_DEAD \<Rightarrow> ''relaunch_process''
      | PERMISSION_DENIED \<Rightarrow> ''skip_or_escalate'' | BROWSER_CRASH \<Rightarrow> ''restart_browser''
      | NETWORK_ERROR \<Rightarrow> ''retry_with_backoff'' | SCHEMA_INVALID \<Rightarrow> ''replan''
      | ACCESSIBILITY_FAIL \<Rightarrow> ''switch_to_cv'' | CV_NO_MATCH \<Rightarrow> ''switch_to_ocr''
      | COMMAND_FAILED \<Rightarrow> ''alternative_command'' | UNKNOWN \<Rightarrow> ''full_reset'')"

definition RETRY_BUDGET :: "ErrorClass \<Rightarrow> nat" where
  "RETRY_BUDGET c =
     (case c of
        ELEMENT_NOT_FOUND \<Rightarrow> 3 | WINDOW_NOT_OPEN \<Rightarrow> 2 | TIMEOUT \<Rightarrow> 3 | PROCESS_DEAD \<Rightarrow> 1
      | PERMISSION_DENIED \<Rightarrow> 0 | BROWSER_CRASH \<Rightarrow> 1 | NETWORK_ERROR \<Rightarrow> 4
      | SCHEMA_INVALID \<Rightarrow> 1 | ACCESSIBILITY_FAIL \<Rightarrow> 2 | CV_NO_MATCH \<Rightarrow> 2
      | COMMAND_FAILED \<Rightarrow> 2 | UNKNOWN \<Rightarrow> 1)"

record ClassifiedError =
  error_class :: ErrorClass
  original_msg :: string
  strategy :: string
  retry_budget :: nat

definition should_retry :: "ClassifiedError \<Rightarrow> bool" where
  "should_retry c = (retry_budget c > 0)"

definition consume_retry :: "ClassifiedError \<Rightarrow> ClassifiedError" where
  "consume_retry c = c\<lparr>retry_budget := retry_budget c - 1\<rparr>"

text \<open>
  The regular expressions of \<^verbatim>\<open>_PATTERNS\<close> use literals, \<^verbatim>\<open>.*\<close>, one optional
  character (\<^verbatim>\<open>timed? out\<close>) and character classes (\<^verbatim>\<open>[45]\<close>, \<^verbatim>\<open>\d\<close>, \<^verbatim>\<open>[1-9]\<close>). A pattern is
  a list of alternatives, an alternative a list of atoms; \<^verbatim>\<open>re.search\<close> looks for a match
  starting at any position. The dot does not match a newline.
\<close>

datatype atom = Lit string | DotStar | OptChar char | OneOf string

fun starts_with :: "string \<Rightarrow> string \<Rightarrow> bool" where
  "starts_with [] s = True"
| "starts_with (p # ps) [] = False"
| "starts_with (p # ps) (c # cs) = (p = c \<and> starts_with ps cs)"

function match_atoms :: "atom list \<Rightarrow> string \<Rightarrow> bool" where
  "match_atoms [] s = True"
| "match_atoms (Lit l # as) s = (starts_with l s \<and> match_atoms as (drop (length l) s))"
| "match_atoms (OptChar c # as) [] = match_atoms as []"
| "match_atoms (OptChar c # as) (x # xs) = ((x = c \<and> match_atoms as xs) \<or> match_atoms as (x # xs))"
| "match_atoms (OneOf cls # as) [] = False"
| "match_atoms (OneOf cls # as) (x # xs) = (x \<in> set cls \<and> match_atoms as xs)"
| "match_atoms (DotStar # as) [] = match_atoms as []"
| "match_atoms (DotStar # as) (x # xs) =
     (match_atoms as (x # xs) \<or> (x \<noteq> CHR 0x0A \<and> match_atoms (DotStar # as) xs))"
  by pat_completeness auto
termination
  by (relation "measure (\<lambda>(as, s). length as + length s)") auto

fun tails :: "string \<Rightarrow> string list" where
  "tails [] = [[]]"
| "tails (c # cs) = (c # cs) # tails cs"

definition re_search :: "atom list list \<Rightarrow> string \<Rightarrow> bool" where
  "re_search alts s = list_ex (\<lambda>t. list_ex (\<lambda>a. match_atoms a t) alts) (tails s)"

definition digits :: string where
  "digits = ''0123456789''"

definition PATTERNS :: "(atom list list \<times> ErrorClass) list" where
  "PATTERNS =
    [([[Lit ''timeout''], [Lit ''time'', OptChar CHR ''d'', Lit '' out''],
       [Lit ''asyncio.timeouterror'']], TIMEOUT),
     ([[Lit ''element not found''], [Lit ''no such element''],
       [Lit ''locator'', DotStar, Lit ''not visible''], [Lit ''element'', DotStar, Lit ''invisible''],
       [Lit ''find_element''], [Lit ''elementnotfound'']], ELEMENT_NOT_FOUND),
     ([[Lit ''window not found''], [Lit ''wmctrl'', DotStar, Lit ''fail''],
       [Lit ''no window'', DotStar, Lit ''title''],
       [Lit ''window'', DotStar, Lit ''does not exist'']], WINDOW_NOT_OPEN),
     ([[Lit ''process'', DotStar, Lit ''dead''], [Lit ''pgrep'', DotStar, Lit ''fail''],
       [Lit ''no such process''], [Lit ''process not running'']], PROCESS_DEAD),
     ([[Lit ''permission denied''], [Lit ''operation not permitted''],
       [Lit ''access denied''], [Lit ''sudo required'']], PERMISSION_DENIED),
     ([[Lit ''browser'', DotStar, Lit ''crash''], [Lit ''playwright'', DotStar, Lit ''closed''],
       [Lit ''page'', DotStar, Lit ''crashed''],
       [Lit ''connection refused'', DotStar, Lit ''browser''],
       [Lit ''target closed'']], BROWSER_CRASH),
     ([[Lit ''connection refused''], [Lit ''network'', DotStar, Lit ''error''],
       [Lit ''dns'', DotStar, Lit ''fail''],
       [Lit ''http'', DotStar, Lit ''error '', OneOf ''45'', OneOf digits, OneOf digits],
       [Lit ''ssl'', DotStar, Lit ''error''], [Lit ''name'', DotStar, Lit ''resolution'']],
      NETWORK_ERROR),
     ([[Lit ''pyatspi''], [Lit ''at-spi''], [Lit ''dbus'', DotStar, Lit ''error''],
       [Lit ''accessibility'', DotStar, Lit ''fail''], [Lit ''atspi'']], ACCESSIBILITY_FAIL),
     ([[Lit ''template'', DotStar, Lit ''not found''], [Lit ''no match''],
       [Lit ''matchtemplate''], [Lit ''confidence'', DotStar, Lit ''below'']], CV_NO_MATCH),
     ([[Lit ''schema'', DotStar, Lit ''fail''], [Lit ''validation'', DotStar, Lit ''fail''],
       [Lit ''missing'', DotStar, Lit ''field''], [Lit ''invalid'', DotStar, Lit ''json'']],
      SCHEMA_INVALID),
     ([[Lit ''command'', DotStar, Lit ''fail''],
       [Lit ''returncode'', DotStar, OneOf ''123456789''],
       [Lit ''subprocess'', DotStar, Lit ''error''], [Lit ''exit code'']], COMMAND_FAILED)]"

fun match_patterns_in :: "(atom list list \<times> ErrorClass) list \<Rightarrow> string \<Rightarrow> ErrorClass" where
  "match_patterns_in [] msg = UNKNOWN"
| "match_patterns_in ((pat, c) # rest) msg =
     (if re_search pat msg then c else match_patterns_in rest msg)"

definition match_patterns :: "string \<Rightarrow> ErrorClass" where
  "match_patterns msg = match_patterns_in PATTERNS msg"

definition contextual_classify :: "string \<Rightarrow> string \<Rightarrow> string \<Rightarrow> ErrorClass" where
  "contextual_classify act meth msg =
     (if meth = ''accessibility'' then ACCESSIBILITY_FAIL
      else if meth = ''cv'' then CV_NO_MATCH
      else if act \<in> {''find_and_click'', ''click_button'', ''navigate'', ''type_text'',
                      ''wait_for_element''} then ELEMENT_NOT_FOUND
      else if act \<in> {''focus_window'', ''verify_window'', ''close_window''} then WINDOW_NOT_OPEN
      else UNKNOWN)"

text \<open>\<^verbatim>\<open>str.lower()\<close>, on ASCII letters.\<close>

definition lower_char :: "char \<Rightarrow> char" where
  "lower_char c =
     (case map_of (zip ''ABCDEFGHIJKLMNOPQRSTUVWXYZ'' ''abcdefghijklmnopqrstuvwxyz'') c of
        None \<Rightarrow> c | Some l \<Rightarrow> l)"

definition lower :: "string \<Rightarrow> string" where
  "lower s = map lower_char s"

definition classify :: "string \<Rightarrow> string \<Rightarrow> string \<Rightarrow> ClassifiedError" where
  "classify error_msg act meth =
     (let msg_lower = lower error_msg;
          m = match_patterns msg_lower;
          matched_class = (if m = UNKNOWN then contextual_classify act meth msg_lower else m)
      in \<lparr>error_class = matched_class, original_msg = error_msg,
          strategy = RECOVERY_STRATEGY matched_class,
          retry_budget = RETRY_BUDGET matched_class\<rparr>)"


subsection \<open>Watchdog\<close>







text \<open>
  The fields of the watchdog object. \<open>alert_cb\<close> says whether a callback is registered;
  \<open>alerts\<close> is the list of the calls made to it, oldest first (the callback of the
  orchestrator is a plain function, so \<^verbatim>\<open>_fire\<close> calls it at once).
\<close>

record Watchdog =
  running :: bool
  last_heartbeat :: rat
  step_label :: string
  abort_requested :: bool
  abort_reason :: string
  watched_procs :: "string set"
  alert_cb :: bool
  alerts :: "(string \<times> string) list"
  last_proc_check :: rat
  last_res_check :: rat
  events_count :: nat
  last_event :: "string option"

definition wd_start :: "rat \<Rightarrow> Watchdog \<Rightarrow> Watchdog" where
  "wd_start now w =
     (if running w then w
      else w\<lparr>abort_requested := False, running := True, last_heartbeat := now\<rparr>)"

definition wd_stop :: "Watchdog \<Rightarrow> Watchdog" where
  "wd_stop w = w\<lparr>running := False\<rparr>"

definition heartbeat :: "rat \<Rightarrow> string \<Rightarrow> Watchdog \<Rightarrow> Watchdog" where
  "heartbeat now label w =
     (let w1 = w\<lparr>last_heartbeat := now\<rparr>
      in if label \<noteq> [] then w1\<lparr>step_label := label\<rparr> else w1)"











subsection \<open>Action backends and the step executor\<close>

datatype backend = UI | Browser | System

datatype outcome = Returned bool | Raised string | TimedOut

record ActionResult =
  ar_success :: bool
  ar_action :: string
  ar_value :: string
  ar_method :: string
  ar_error :: string
  ar_error_code :: string

definition ar_ok :: "string \<Rightarrow> string \<Rightarrow> string \<Rightarrow> ActionResult" where
  "ar_ok a v m =
     \<lparr>ar_success = True, ar_action = a, ar_value = v, ar_method = m, ar_error = [],
      ar_error_code = []\<rparr>"

definition ar_fail :: "string \<Rightarrow> string \<Rightarrow> string \<Rightarrow> string \<Rightarrow> ActionResult" where
  "ar_fail a v m e =
     \<lparr>ar_success = False, ar_action = a, ar_value = v, ar_method = m, ar_error = e,
      ar_error_code = ''unknown''\<rparr>"

text \<open>
  Everything outside the engine. \<open>backend_call k b s\<close> is what the backend \<open>b\<close> does when it
  is called with the step \<open>s\<close> after \<open>k\<close> earlier backend calls; \<open>verifier_call k s\<close> is the
  answer of the verifier after \<open>k\<close> earlier questions. The capability detector is
  \<open>has_capabilities\<close>, \<open>method_available\<close>, \<open>best_method_for\<close>. The watchdog runs in a thread
  of its own: \<open>seen_watchdog k\<close> and \<open>seen_abort k\<close> are the watchdog object and the field
  \<^verbatim>\<open>_abort\<close> as the orchestrator reads them at its \<open>k\<close>-th node check.
\<close>

record world =
  backend_call :: "nat \<Rightarrow> backend \<Rightarrow> step \<Rightarrow> outcome"
  verifier_call :: "nat \<Rightarrow> step \<Rightarrow> bool"
  has_capabilities :: bool
  method_available :: "string \<Rightarrow> bool"
  best_method_for :: "string \<Rightarrow> string"
  seen_watchdog :: "nat \<Rightarrow> Watchdog"
  seen_abort :: "nat \<Rightarrow> bool"
  now_at :: "nat \<Rightarrow> int"
  uuid_hex :: "nat \<Rightarrow> string"
  set_order :: "string list \<Rightarrow> string list"

record RollbackEntry =
  re_step :: step
  source_step_id :: string

text \<open>
  The state of the orchestrator that a run changes: the state of the state machine, the
  failure counters of the retry policy, the stack of the rollback manager, and three
  records of what was done: the steps given to \<^verbatim>\<open>StepExecutor.execute\<close>, the backend calls
  and the number of questions to the verifier.
\<close>

record engine =
  sm_state :: TaskState
  fail_counts :: "string \<rightharpoonup> nat"
  rb_stack :: "RollbackEntry list"
  fn_calls :: "step list"
  calls :: "(backend \<times> step) list"
  verify_calls :: nat
  node_checks :: nat

definition call_backend :: "world \<Rightarrow> backend \<Rightarrow> step \<Rightarrow> engine \<Rightarrow> outcome \<times> engine" where
  "call_backend w b s st =
     (backend_call w (length (calls st)) b s, st\<lparr>calls := calls st @ [(b, s)]\<rparr>)"

definition truthy :: "outcome \<Rightarrow> bool" where
  "truthy out = (case out of Returned b \<Rightarrow> b | Raised e \<Rightarrow> False | TimedOut \<Rightarrow> False)"

definition capability_best :: "world \<Rightarrow> string \<Rightarrow> string" where
  "capability_best w a = (if has_capabilities w then best_method_for w a else ''system'')"

definition resolve_method :: "world \<Rightarrow> step \<Rightarrow> string" where
  "resolve_method w s =
     (let hinted = s_method s; a = s_action s
      in if hinted \<noteq> [] \<and> hinted \<noteq> ''auto'' then
           (if has_capabilities w \<and> \<not> method_available w hinted then capability_best w a
            else hinted)
         else if has_capabilities w then best_method_for w a
         else if a \<in> {''navigate'', ''find_and_click'', ''type_text'', ''scroll'',
                        ''wait_for_element'', ''get_text''} then ''browser''
         else if a \<in> {''set_volume'', ''set_brightness'', ''run_command'', ''focus_window'',
                        ''close_window'', ''open_terminal'', ''open_menu'', ''verify_window'',
                        ''navigate_folder''} then ''system''
         else ''accessibility'')"

definition pick_executor :: "string \<Rightarrow> string \<Rightarrow> backend" where
  "pick_executor a m =
     (if m = ''browser'' \<or> a \<in> {''navigate'', ''wait_for_element'', ''scroll'', ''get_text'',
                                    ''find_and_click''} then Browser
      else if m = ''system'' \<or> a \<in> {''set_volume'', ''set_brightness'', ''run_command'',
                                        ''focus_window'', ''close_window'', ''open_terminal'',
                                        ''open_menu'', ''verify_window''} then System
      else UI)"

text \<open>
  \<^verbatim>\<open>StepExecutor.execute\<close>. The text of the timeout error carries the time measured, which
  the model leaves out.
\<close>

definition step_execute :: "world \<Rightarrow> step \<Rightarrow> engine \<Rightarrow> ActionResult \<times> engine" where
  "step_execute w s st =
     (let a = s_action s; v = s_value s; m = resolve_method w s;
          (out, st1) = call_backend w (pick_executor a m) (s\<lparr>s_method := m\<rparr>)
                         (st\<lparr>fn_calls := fn_calls st @ [s]\<rparr>)
      in (case out of
            Returned b \<Rightarrow>
              if b then ar_ok a v m else ar_fail a v m ''Executor returned falsy result''
          | TimedOut \<Rightarrow> ar_fail a v m ''TimeoutError''
          | Raised e \<Rightarrow> ar_fail a v m e,
          st1))"

subsection \<open>RetryPolicy\<close>

definition METHOD_PRIORITY :: "(string \<times> string list) list" where
  "METHOD_PRIORITY =
    [(''open_app'', [''system'', ''accessibility'', ''cv'']),
     (''open_terminal'', [''system'']),
     (''find_and_click'', [''accessibility'', ''browser'', ''cv'']),
     (''click_button'', [''accessibility'', ''browser'', ''cv'']),
     (''click_result'', [''accessibility'', ''browser'', ''cv'']),
     (''type_text'', [''accessibility'', ''browser'', ''system'']),
     (''search'', [''accessibility'', ''browser'']),
     (''navigate'', [''browser'']),
     (''focus_window'', [''system'', ''accessibility'']),
     (''close_window'', [''system'', ''accessibility'']),
     (''set_volume'', [''system'']),
     (''set_brightness'', [''system'']),
     (''run_command'', [''system'']),
     (''verify_window'', [''system'', ''accessibility'']),
     (''wait_for_element'', [''accessibility'', ''browser'']),
     (''scroll'', [''browser'', ''system'', ''cv'']),
     (''get_text'', [''accessibility'', ''browser'', ''cv'']),
     (''open_menu'', [''system'', ''accessibility''])]"

definition DEFAULT_PRIORITY :: "string list" where
  "DEFAULT_PRIORITY = [''accessibility'', ''system'', ''browser'', ''cv'']"

definition FAILURE_DEMOTION_THRESHOLD :: nat where
  "FAILURE_DEMOTION_THRESHOLD = 3"

definition fail_key :: "string \<Rightarrow> string \<Rightarrow> string" where
  "fail_key a m = a @ '':'' @ m"

definition get_fails :: "(string \<rightharpoonup> nat) \<Rightarrow> string \<Rightarrow> string \<Rightarrow> nat" where
  "get_fails fc a m = (case fc (fail_key a m) of None \<Rightarrow> 0 | Some c \<Rightarrow> c)"

definition record_failure :: "string \<Rightarrow> string \<Rightarrow> engine \<Rightarrow> engine" where
  "record_failure a m st =
     st\<lparr>fail_counts := (fail_counts st)(fail_key a m \<mapsto> get_fails (fail_counts st) a m + 1)\<rparr>"

text \<open>\<^verbatim>\<open>list.sort(key=...)\<close> is a stable sort, as \<open>sort_key\<close> is.\<close>

definition get_fallback_chain :: "(string \<rightharpoonup> nat) \<Rightarrow> string \<Rightarrow> string \<Rightarrow> string list" where
  "get_fallback_chain fc a current_method =
     (let baseline = dict_get METHOD_PRIORITY a DEFAULT_PRIORITY;
          candidates = filter (\<lambda>m. m \<noteq> current_method) baseline
      in sort_key (\<lambda>m. get_fails fc a m) candidates)"

text \<open>Level 1: the attempts with the step's own method.\<close>

fun retry_same :: "world \<Rightarrow> step \<Rightarrow> nat \<Rightarrow> engine \<Rightarrow> ActionResult option \<times> engine" where
  "retry_same w s 0 st = (None, st)"
| "retry_same w s (Suc k) st =
     (let (r, st1) = step_execute w s st
      in if ar_success r then (Some r, st1)
         else retry_same w s k (record_failure (s_action s) (s_method s) st1))"

text \<open>Level 2: the methods of the fallback chain, each tried once.\<close>

fun try_fallbacks :: "world \<Rightarrow> step \<Rightarrow> string list \<Rightarrow> engine \<Rightarrow> ActionResult option \<times> engine" where
  "try_fallbacks w s [] st = (None, st)"
| "try_fallbacks w s (fb # fbs) st =
     (if get_fails (fail_counts st) (s_action s) fb \<ge> FAILURE_DEMOTION_THRESHOLD
      then try_fallbacks w s fbs st
      else
        (let (r, st1) = step_execute w (s\<lparr>s_method := fb\<rparr>) st
         in if ar_success r then (Some r, st1)
            else try_fallbacks w s fbs (record_failure (s_action s) fb st1)))"

definition single_method_actions :: "string set" where
  "single_method_actions = {''run_command'', ''set_volume'', ''set_brightness'', ''open_terminal''}"

definition execute_with_retry ::
  "world \<Rightarrow> nat \<Rightarrow> step \<Rightarrow> engine \<Rightarrow> ActionResult option \<times> engine" where
  "execute_with_retry w max_attempts s st =
     (case retry_same w s max_attempts st of
        (Some r, st1) \<Rightarrow> (Some r, st1)
      | (None, st1) \<Rightarrow>
          (case try_fallbacks w s
                  (get_fallback_chain (fail_counts st1) (s_action s) (s_method s)) st1 of
             (Some r, st2) \<Rightarrow> (Some r, st2)
           | (None, st2) \<Rightarrow>
               if s_action s \<in> single_method_actions then
                 (let (r, st3) = step_execute w (s\<lparr>s_method := ''system''\<rparr>) st2
                  in if ar_success r then (Some r, st3) else (None, st3))
               else (None, st2)))"

subsection \<open>RollbackManager\<close>

record rollback_result =
  rr_action :: string
  rr_value :: string
  rr_source_step :: string
  rr_success :: bool
  rr_error :: string

definition rm_push :: "step \<Rightarrow> string \<Rightarrow> engine \<Rightarrow> engine" where
  "rm_push rollback_step src st =
     (if s_action rollback_step = [] then st
      else st\<lparr>rb_stack := rb_stack st @ [\<lparr>re_step = rollback_step, source_step_id = src\<rparr>]\<rparr>)"

text \<open>
  \<^verbatim>\<open>_execute_rollback\<close>. The orchestrator builds the manager with both \<^verbatim>\<open>system_actions\<close> and
  \<^verbatim>\<open>ui_actions\<close>, so the executor is the one of the system backend.
\<close>

definition execute_rollback :: "world \<Rightarrow> RollbackEntry \<Rightarrow> engine \<Rightarrow> rollback_result \<times> engine" where
  "execute_rollback w entry st =
     (let (out, st1) = call_backend w System (re_step entry) st
      in (\<lparr>rr_action = s_action (re_step entry), rr_value = s_value (re_step entry),
           rr_source_step = source_step_id entry,
           rr_success = truthy out,
           rr_error = (case out of
                         Returned b \<Rightarrow> if b then [] else ''Rollback action returned False''
                       | TimedOut \<Rightarrow> ''Rollback timeout''
                       | Raised e \<Rightarrow> e)\<rparr>,
          st1))"

fun execute_rollbacks ::
  "world \<Rightarrow> RollbackEntry list \<Rightarrow> engine \<Rightarrow> rollback_result list \<times> engine" where
  "execute_rollbacks w [] st = ([], st)"
| "execute_rollbacks w (e # es) st =
     (let (r, st1) = execute_rollback w e st;
          (rs, st2) = execute_rollbacks w es st1
      in (r # rs, st2))"

definition rm_rollback_all :: "world \<Rightarrow> engine \<Rightarrow> rollback_result list \<times> engine" where
  "rm_rollback_all w st =
     (if rb_stack st = [] then ([], st)
      else
        (let (rs, st1) = execute_rollbacks w (rev (rb_stack st)) st
         in (rs, st1\<lparr>rb_stack := []\<rparr>)))"

definition rollback_from ::
  "world \<Rightarrow> string \<Rightarrow> StepGraph \<Rightarrow> engine \<Rightarrow> rollback_result list \<times> engine" where
  "rollback_from w failed_step_id g st =
     execute_rollbacks w
       (map (\<lambda>d. \<lparr>re_step = rd_step d, source_step_id = rd_for d\<rparr>)
          (rollback_steps_after g failed_step_id)) st"

subsection \<open>ExecutionContext: the execution-mode gate\<close>

datatype ExecMode = LIVE | DRY_RUN | SAFE_MODE

definition SAFE_ACTIONS :: "string set" where
  "SAFE_ACTIONS = {''verify_window'', ''focus_window'', ''get_text'', ''wait_for_element'',
                   ''scroll'', ''set_volume'', ''set_brightness''}"

definition BLOCKED_IN_SAFE :: "string set" where
  "BLOCKED_IN_SAFE = {''run_command'', ''close_window'', ''type_text'', ''click_button''}"

definition can_execute :: "ExecMode \<Rightarrow> step \<Rightarrow> bool" where
  "can_execute mode s =
     (case mode of
        LIVE \<Rightarrow> True
      | DRY_RUN \<Rightarrow> False
      | SAFE_MODE \<Rightarrow>
          if s_action s \<in> BLOCKED_IN_SAFE then False
          else if s_action s \<notin> SAFE_ACTIONS then False
          else True)"

definition make_mode :: "string \<Rightarrow> ExecMode" where
  "make_mode m =
     dict_get [(''live'', LIVE), (''dry_run'', DRY_RUN), (''dry'', DRY_RUN),
               (''safe'', SAFE_MODE), (''safe_mode'', SAFE_MODE)] (lower m) LIVE"

subsection \<open>Orchestrator\<close>

record TaskResult =
  tr_success :: bool
  tr_task_name :: string
  tr_steps_done :: nat
  tr_steps_total :: nat
  tr_error :: string
  tr_graph :: "StepGraph option"

definition make_result :: "StepGraph \<Rightarrow> string \<Rightarrow> string \<Rightarrow> TaskResult" where
  "make_result g tname err =
     (let (done, total) = progress g
      in \<lparr>tr_success = (err = [] \<and> done = total), tr_task_name = tname,
          tr_steps_done = done, tr_steps_total = total, tr_error = err,
          tr_graph = Some g\<rparr>)"

text \<open>A change of the runtime state of the node at position \<open>i\<close>.\<close>

definition upd_node :: "nat \<Rightarrow> (StepNode \<Rightarrow> StepNode) \<Rightarrow> StepGraph \<Rightarrow> StepGraph" where
  "upd_node i f g = g\<lparr>nodes := (nodes g)[i := f (nodes g ! i)]\<rparr>"

definition clock :: "world \<Rightarrow> engine \<Rightarrow> int" where
  "clock w st = now_at w (length (calls st))"

definition ORCH_MAX_ATTEMPTS :: nat where
  "ORCH_MAX_ATTEMPTS = 3"

text \<open>\<^verbatim>\<open>Orchestrator._verify\<close>: some actions are not verified; a timeout of the verifier counts as verified.\<close>

definition orch_verify :: "world \<Rightarrow> step \<Rightarrow> engine \<Rightarrow> bool \<times> engine" where
  "orch_verify w s st =
     (if s_action s = ''run_command'' then (True, st)
      else if s_action s \<in> {''open_app'', ''open_terminal'', ''open_menu'', ''search'',
                               ''click_result''} then (True, st)
      else (verifier_call w (verify_calls st) s, st\<lparr>verify_calls := verify_calls st + 1\<rparr>))"

text \<open>
  \<^verbatim>\<open>RecoveryEngine.recover_verify_failure\<close> asks the verifier once more and then calls
  \<^verbatim>\<open>agent._execute_step_with_recovery\<close>, which the orchestrator does not have.
\<close>

definition recover_verify_failure :: "world \<Rightarrow> step \<Rightarrow> engine \<Rightarrow> (error + bool) \<times> engine" where
  "recover_verify_failure w s st =
     (let verified = verifier_call w (verify_calls st) s;
          st1 = st\<lparr>verify_calls := verify_calls st + 1\<rparr>
      in if verified then (Inr True, st1)
         else (Inl (AttributeError ''_execute_step_with_recovery''), st1))"

text \<open>\<^verbatim>\<open>RecoveryEngine.full_reset\<close>: two more attempts, straight on a backend.\<close>

fun full_reset_attempts :: "world \<Rightarrow> step \<Rightarrow> nat \<Rightarrow> engine \<Rightarrow> bool \<times> engine" where
  "full_reset_attempts w s 0 st = (False, st)"
| "full_reset_attempts w s (Suc k) st =
     (let b = (if s_action s \<in> {''run_command'', ''set_volume'', ''set_brightness'', ''open_menu'',
                                   ''verify_window'', ''focus_window'', ''close_window'',
                                   ''open_terminal''} then System else UI);
          (out, st1) = call_backend w b s st
      in if truthy out then (True, st1) else full_reset_attempts w s k st1)"

definition full_reset :: "world \<Rightarrow> step \<Rightarrow> engine \<Rightarrow> bool \<times> engine" where
  "full_reset w s st = full_reset_attempts w s 2 st"

text \<open>The second half of \<^verbatim>\<open>_exec_node\<close>, from the transition to VERIFYING on.\<close>

definition node_succeeds :: "world \<Rightarrow> nat \<Rightarrow> string \<Rightarrow> StepGraph \<Rightarrow> engine \<Rightarrow> StepGraph \<times> engine" where
  "node_succeeds w i m g st =
     (let g1 = upd_node i (mark_success (clock w st) m) g;
          n = nodes g1 ! i
      in (g1,
          if has_rollback n
          then rm_push \<lparr>s_action = (case rollback_action n of None \<Rightarrow> [] | Some a \<Rightarrow> a),
                        s_value = val n, s_method = ''system''\<rparr> (step_id n) st
          else st))"

definition verify_and_finish ::
  "world \<Rightarrow> nat \<Rightarrow> string \<Rightarrow> StepGraph \<Rightarrow> engine \<Rightarrow> (error + bool) \<times> StepGraph \<times> engine" where
  "verify_and_finish w i m g st =
     (case transition (sm_state st) VERIFYING of
        Inl e \<Rightarrow> (Inl e, g, st)
      | Inr s1 \<Rightarrow>
          (let (verified, st2) = orch_verify w (to_step_dict (nodes g ! i)) (st\<lparr>sm_state := s1\<rparr>)
           in if \<not> verified then
                (case recover_verify_failure w (to_step_dict (nodes g ! i)) st2 of
                   (Inl e, st3) \<Rightarrow> (Inl e, g, st3)
                 | (Inr v_ok, st3) \<Rightarrow>
                     if \<not> v_ok then
                       (let g1 = upd_node i
                                   (mark_failed (clock w st3) ''verification failed after recovery'') g
                        in case transition (sm_state st3) TS_FAILED of
                             Inl e \<Rightarrow> (Inl e, g1, st3)
                           | Inr s3 \<Rightarrow> (Inr False, g1, st3\<lparr>sm_state := s3\<rparr>))
                     else (let (g1, st4) = node_succeeds w i m g st3 in (Inr True, g1, st4)))
              else (let (g1, st4) = node_succeeds w i m g st2 in (Inr True, g1, st4))))"

definition exec_node ::
  "world \<Rightarrow> nat \<Rightarrow> StepGraph \<Rightarrow> engine \<Rightarrow> (error + bool) \<times> StepGraph \<times> engine" where
  "exec_node w i g st =
     (case transition (sm_state st) EXECUTING of
        Inl e \<Rightarrow> (Inl e, g, st)
      | Inr s1 \<Rightarrow>
          (let st1 = st\<lparr>sm_state := s1\<rparr>;
               g1 = upd_node i (mark_running (clock w st1)) g;
               s = to_step_dict (nodes g ! i);
               (result, st2) = execute_with_retry w ORCH_MAX_ATTEMPTS s st1
           in case result of
                Some r \<Rightarrow> verify_and_finish w i (ar_method r) g1 st2
              | None \<Rightarrow>
                  (let classified = classify ''executor returned None or False''
                                      (action (nodes g ! i)) (method_hint (nodes g ! i))
                   in case transition (sm_state st2) RECOVERING of
                        Inl e \<Rightarrow> (Inl e, g1, st2)
                      | Inr s2 \<Rightarrow>
                          (let (recovered, st3) = full_reset w s (st2\<lparr>sm_state := s2\<rparr>)
                           in if \<not> recovered then
                                (let g2 = upd_node i
                                            (mark_failed (clock w st3)
                                               (error_class_value (error_class classified) @
                                                '': all retries exhausted'')) g1
                                 in case transition (sm_state st3) TS_FAILED of
                                      Inl e \<Rightarrow> (Inl e, g2, st3)
                                    | Inr s3 \<Rightarrow> (Inr False, g2, st3\<lparr>sm_state := s3\<rparr>))
                              else verify_and_finish w i ''recovery'' g1 st3))))"

text \<open>
  The \<^verbatim>\<open>for node in ready\<close> loop of \<^verbatim>\<open>_exec_graph\<close>: an exception, a \<^verbatim>\<open>return\<close> out of
  \<^verbatim>\<open>_exec_graph\<close>, or the end of the loop.
\<close>

datatype loop_result =
    Raises error StepGraph engine
  | Returns TaskResult StepGraph engine
  | Continues StepGraph engine

fun exec_ready :: "world \<Rightarrow> ExecMode \<Rightarrow> nat list \<Rightarrow> StepGraph \<Rightarrow> engine \<Rightarrow> loop_result" where
  "exec_ready w mode [] g st = Continues g st"
| "exec_ready w mode (i # rest) g st =
     (let k = node_checks st;
          st0 = st\<lparr>node_checks := k + 1\<rparr>;
          wd = seen_watchdog w k
      in if seen_abort w k \<or> abort_requested wd then
           (let g1 = upd_node i (mark_failed (clock w st0) ''Watchdog abort'') g;
                failed_error = (if abort_reason wd \<noteq> [] then abort_reason wd
                                else ''Watchdog abort'')
            in case transition (sm_state st0) TS_FAILED of
                 Inl e \<Rightarrow> Raises e g1 st0
               | Inr s \<Rightarrow>
                   Returns (make_result g1 (task_name g1) failed_error) g1 (st0\<lparr>sm_state := s\<rparr>))
         else if \<not> can_execute mode (to_step_dict (nodes g ! i)) then
           exec_ready w mode rest (upd_node i (mark_skipped ''blocked by exec_context'') g) st0
         else
           (case exec_node w i g st0 of
              (Inl e, g1, st1) \<Rightarrow> Raises e g1 st1
            | (Inr outcome, g1, st1) \<Rightarrow>
                if \<not> outcome
                then Returns (make_result g1 (task_name g1) (error (nodes g1 ! i))) g1 st1
                else exec_ready w mode rest g1 st1))"

text \<open>
  \<^verbatim>\<open>_exec_graph\<close>: the \<^verbatim>\<open>while True\<close> loop. Every round that does not leave the loop takes
  the nodes that were ready out of the status PENDING, which is why the loop ends.
\<close>

function exec_graph ::
  "world \<Rightarrow> ExecMode \<Rightarrow> StepGraph \<Rightarrow> engine \<Rightarrow> (error + TaskResult) \<times> StepGraph \<times> engine" where
  "exec_graph w mode g st =
     (let ready = pending_nodes g
      in if ready = [] then
           (let (done, total) = progress g
            in (Inr (make_result g (task_name g) (if done = total then [] else ''incomplete'')),
                g, st))
         else
           (case exec_ready w mode ready g st of
              Raises e g1 st1 \<Rightarrow> (Inl e, g1, st1)
            | Returns r g1 st1 \<Rightarrow> (Inr r, g1, st1)
            | Continues g1 st1 \<Rightarrow>
                if has_failed g1
                then (Inr (make_result g1 (task_name g1) (error (hd (failed_nodes g1)))), g1, st1)
                else exec_graph w mode g1 st1))"
  by pat_completeness auto
termination
proof (relation "measure (\<lambda>(w, mode, g, st).
          card {i. i < length (nodes g) \<and> status (nodes g ! i) = PENDING})", goal_cases)
  case 1
  show ?case by simp
next
  case (2 w mode g st ready g1 st1)
  have succ: "nodes ga = (nodes gb)[i := mark_success (clock w sa) m (nodes gb ! i)]"
    if "node_succeeds w i m gb sa = (ga, sb)" for i m ga gb sa sb
    using that by (auto simp: node_succeeds_def upd_node_def Let_def)
  have vaf: "\<exists>t. nodes ga = (nodes gb)[i := mark_success t m (nodes gb ! i)]"
    if "verify_and_finish w i m gb sa = (Inr True, ga, sb)" for i m ga gb sa sb
    using that
    by (auto simp: verify_and_finish_def Let_def upd_node_def
        split: sum.splits prod.splits if_splits dest!: succ)
  have vaf_run: "\<exists>f. nodes ga = (nodes gb)[i := f] \<and> status f = SUCCESS"
    if "verify_and_finish w i m (upd_node i (mark_running t) gb) sa = (Inr True, ga, sb)"
    for i m t ga gb sa sb
    using vaf [OF that] by (auto simp: upd_node_def mark_success_def)
  have node: "\<exists>f. nodes ga = (nodes gb)[i := f] \<and> status f = SUCCESS"
    if "exec_node w i gb sa = (Inr True, ga, sb)" for i ga gb sa sb
    using that
    by (auto simp: exec_node_def Let_def split: sum.splits prod.splits option.splits if_splits
        dest: vaf_run)
  have loop: "length (nodes ga) = length (nodes gb) \<and>
       (\<forall>j. j \<notin> set js \<longrightarrow> nodes ga ! j = nodes gb ! j) \<and>
       (\<forall>i\<in>set js. status (nodes ga ! i) \<noteq> PENDING)"
    if "exec_ready w mode js gb sa = Continues ga sb" "distinct js"
       "\<forall>i\<in>set js. i < length (nodes gb)" for js ga gb sa sb
    using that
  proof (induction js arbitrary: gb sa)
    case Nil
    then show ?case by simp
  next
    case (Cons i rest)
    let ?s0 = "sa\<lparr>node_checks := node_checks sa + 1\<rparr>"
    from Cons.prems(1)
    have na: "\<not> (seen_abort w (node_checks sa) \<or>
                 abort_requested (seen_watchdog w (node_checks sa)))"
      by (auto simp: Let_def split: sum.splits)
    show ?case
    proof (cases "can_execute mode (to_step_dict (nodes gb ! i))")
      case False
      let ?g = "upd_node i (mark_skipped ''blocked by exec_context'') gb"
      from Cons.prems(1) na False
      have r: "exec_ready w mode rest ?g ?s0 = Continues ga sb"
        by (simp add: Let_def)
      have len: "length (nodes ?g) = length (nodes gb)"
        by (simp add: upd_node_def)
      from Cons.prems
      have "distinct rest" "\<forall>i\<in>set rest. i < length (nodes ?g)" "i \<notin> set rest"
           "i < length (nodes gb)"
        by (auto simp: len)
      from Cons.IH [OF r this(1,2)] this(3,4) show ?thesis
        by (auto simp: upd_node_def mark_skipped_def)
    next
      case True
      from Cons.prems(1) na True obtain g' s' where
        en: "exec_node w i gb ?s0 = (Inr True, g', s')" and
        r: "exec_ready w mode rest g' s' = Continues ga sb"
        by (auto simp: Let_def split: sum.splits prod.splits if_splits)
      from node [OF en] obtain f where f: "nodes g' = (nodes gb)[i := f]" "status f = SUCCESS"
        by blast
      from Cons.prems f
      have "distinct rest" "\<forall>i\<in>set rest. i < length (nodes g')" "i \<notin> set rest"
           "i < length (nodes gb)"
        by auto
      from Cons.IH [OF r this(1,2)] this(3,4) f show ?thesis
        by auto
    qed
  qed
  have d: "distinct ready" "\<forall>i\<in>set ready. i < length (nodes g)"
          "\<forall>i\<in>set ready. status (nodes g ! i) = PENDING"
    using 2(1) by (auto simp: pending_nodes_def)
  from loop [OF 2(3) d(1,2)]
  have l: "length (nodes g1) = length (nodes g)"
          "\<forall>j. j \<notin> set ready \<longrightarrow> nodes g1 ! j = nodes g ! j"
          "\<forall>i\<in>set ready. status (nodes g1 ! i) \<noteq> PENDING"
    by auto
  from 2(2) obtain i0 where i0: "i0 \<in> set ready"
    by (cases ready) auto
  let ?P1 = "{i. i < length (nodes g1) \<and> status (nodes g1 ! i) = PENDING}"
  let ?P0 = "{i. i < length (nodes g) \<and> status (nodes g ! i) = PENDING}"
  have sub: "?P1 \<subseteq> ?P0"
    using l by (metis (mono_tags, lifting) Collect_mono)
  have "i0 \<in> ?P0" "i0 \<notin> ?P1"
    using i0 d l by auto
  with sub have "?P1 \<subset> ?P0"
    by blast
  then have "card ?P1 < card ?P0"
    by (intro psubset_card_mono) auto
  then show ?case by simp
qed

declare exec_graph.simps [simp del]

text \<open>
  \<^verbatim>\<open>Orchestrator.run\<close>. The planner is outside the engine: \<open>planned\<close> is what \<^verbatim>\<open>_plan\<close>
  returns (\<open>None\<close> when planning failed). The result is paired with the state in which the
  call leaves the orchestrator, also when it raises. Audit records, the context store and
  the plan cache are written to and never read.
\<close>

definition DRY_RUN_NOTE :: string where
  "DRY_RUN_NOTE = ''dry_run: no actions executed''"

definition run ::
  "world \<Rightarrow> plan option \<Rightarrow> string \<Rightarrow> engine \<Rightarrow> (error + TaskResult) \<times> engine" where
  "run w planned exec_mode st =
     (let mode = make_mode exec_mode;
          st0 = st\<lparr>rb_stack := []\<rparr>
      in case transition (sm_state st0) PLANNED of
           Inl e \<Rightarrow> (Inl e, st0)
         | Inr s1 \<Rightarrow>
             (let st1 = st0\<lparr>sm_state := s1\<rparr>
              in case planned of
                   None \<Rightarrow>
                     (case transition (sm_state st1) TS_FAILED of
                        Inl e \<Rightarrow> (Inl e, st1)
                      | Inr s2 \<Rightarrow>
                          (Inr \<lparr>tr_success = False, tr_task_name = [], tr_steps_done = 0,
                                tr_steps_total = 0, tr_error = ''Planning failed'',
                                tr_graph = None\<rparr>,
                           st1\<lparr>sm_state := INIT\<rparr>))
                 | Some p \<Rightarrow>
                     if mode = DRY_RUN then
                       (case transition (sm_state st1) TS_SUCCESS of
                          Inl e \<Rightarrow> (Inl e, st1)
                        | Inr s2 \<Rightarrow>
                            (case transition s2 INIT of
                               Inl e \<Rightarrow> (Inl e, st1\<lparr>sm_state := s2\<rparr>)
                             | Inr s3 \<Rightarrow>
                                 (Inr \<lparr>tr_success = True, tr_task_name = task p,
                                       tr_steps_done = 0, tr_steps_total = length (steps p),
                                       tr_error = DRY_RUN_NOTE, tr_graph = None\<rparr>,
                                  st1\<lparr>sm_state := s3\<rparr>)))
                     else
                       (case from_plan (uuid_hex w) (set_order w) p of
                          Inl e \<Rightarrow> (Inl e, st1)
                        | Inr g0 \<Rightarrow>
                            (case exec_graph w mode (freeze g0) st1 of
                               (Inl e, g1, st2) \<Rightarrow> (Inl e, st2)
                             | (Inr result, g1, st2) \<Rightarrow>
                                 (case (if tr_success result
                                        then transition (sm_state st2) TS_SUCCESS
                                        else if sm_state st2 \<notin> {TS_FAILED, CANCELLED}
                                             then transition (sm_state st2) TS_FAILED
                                             else Inr (sm_state st2)) of
                                    Inl e \<Rightarrow> (Inl e, st2)
                                  | Inr s3 \<Rightarrow>
                                      (let st3 = st2\<lparr>sm_state := s3\<rparr>;
                                           st4 = (if \<not> tr_success result
                                                  then snd (rm_rollback_all w st3) else st3)
                                       in (Inr (result\<lparr>tr_graph := Some g1\<rparr>),
                                           st4\<lparr>sm_state := force_reset (sm_state st4)\<rparr>)))))))"

subsection \<open>Predicates of the statements\<close>


text \<open>The exception a call raised, if it raised one.\<close>

definition raised :: "error + 'a \<Rightarrow> error option" where
  "raised r = (case r of Inl e \<Rightarrow> Some e | Inr v \<Rightarrow> None)"


subsection \<open>Concrete inputs\<close>

definition open_a :: step where
  "open_a = \<lparr>s_action = ''open_app'', s_value = ''files'', s_method = ''system''\<rparr>"

definition done_node :: StepNode where
  "done_node = mark_success 7 ''system'' (make_node (\<lambda>i. ''abcdef'') 0 None open_a)"

definition wd0 :: Watchdog where
  "wd0 = \<lparr>running = True, last_heartbeat = 0, step_label = ''[2] focus_window'',
           abort_requested = False, abort_reason = [], watched_procs = {''chromium''},
           alert_cb = True, alerts = [], last_proc_check = 0, last_res_check = 0,
           events_count = 0, last_event = None\<rparr>"

text \<open>A world in which every backend call succeeds and the verifier always agrees.\<close>

definition w_ok :: world where
  "w_ok = \<lparr>backend_call = (\<lambda>k b s. Returned True), verifier_call = (\<lambda>k s. True),
            has_capabilities = False, method_available = (\<lambda>m. True),
            best_method_for = (\<lambda>a. ''system''), seen_watchdog = (\<lambda>k. wd0),
            seen_abort = (\<lambda>k. False), now_at = (\<lambda>k. int k),
            uuid_hex = (\<lambda>i. ''abcdef''), set_order = rev\<rparr>"

text \<open>A world in which every backend call raises a permission error.\<close>

definition w_denied :: world where
  "w_denied = w_ok\<lparr>backend_call := (\<lambda>k b s. Raised ''Permission denied'')\<rparr>"

definition st_init :: engine where
  "st_init = \<lparr>sm_state = INIT, fail_counts = Map.empty, rb_stack = [], fn_calls = [],
               calls = [], verify_calls = 0, node_checks = 0\<rparr>"

definition shadow_step :: step where
  "shadow_step = \<lparr>s_action = ''run_command'', s_value = ''cat /etc/shadow'', s_method = ''system''\<rparr>"




text \<open>Graphs as \<^verbatim>\<open>from_plan\<close> builds them, with the runtime state of a run.\<close>

definition graph_of :: "plan \<Rightarrow> StepGraph" where
  "graph_of p =
     (case from_plan (uuid_hex w_ok) (set_order w_ok) p of Inr g \<Rightarrow> g | Inl e \<Rightarrow> empty_graph)"

definition plan_apps :: plan where
  "plan_apps = \<lparr>task = ''open three'', steps =
     [\<lparr>s_action = ''open_app'', s_value = ''files'', s_method = ''system''\<rparr>,
      \<lparr>s_action = ''open_app'', s_value = ''editor'', s_method = ''system''\<rparr>,
      \<lparr>s_action = ''open_app'', s_value = ''browser'', s_method = ''system''\<rparr>]\<rparr>"

definition chain_ssf :: StepGraph where
  "chain_ssf =
     upd_node 2 (mark_failed 3 ''unknown: all retries exhausted'')
       (upd_node 1 (mark_success 2 ''system'')
          (upd_node 0 (mark_success 1 ''system'') (freeze (graph_of plan_apps))))"

definition chain_sss :: StepGraph where
  "chain_sss =
     upd_node 2 (mark_success 3 ''system'')
       (upd_node 1 (mark_success 2 ''system'')
          (upd_node 0 (mark_success 1 ''system'') (freeze (graph_of plan_apps))))"





definition plan_blocked :: plan where
  "plan_blocked = \<lparr>task = ''read shadow'', steps = [shadow_step]\<rparr>"





section \<open>Properties\<close>

subsection \<open>StepNode\<close>

text \<open>
  C9. For every node whose status is SUCCESS, \<^verbatim>\<open>mark_running\<close> changes nothing: the
  node after the call is the node before it, so its status, its attempt count and its two
  timestamps are what they were.
\<close>

theorem mark_running_idempotent:
  "status n = SUCCESS \<Longrightarrow>
     mark_running now n = n \<and>
     status (mark_running now n) = SUCCESS \<and>
     attempts (mark_running now n) = attempts n \<and>
     started_at (mark_running now n) = started_at n \<and>
     finished_at (mark_running now n) = finished_at n"
  by (simp add: mark_running_def)

theorem mark_running_idempotent_witness:
  "status done_node = SUCCESS \<and> mark_running 9 done_node = done_node \<and>
   attempts (mark_running 9 done_node) = 0 \<and>
   started_at (mark_running 9 done_node) = None \<and>
   finished_at (mark_running 9 done_node) = Some 7"
proof -
  have s: "status done_node = SUCCESS"
    by (simp add: done_node_def mark_success_def)
  have a: "attempts done_node = 0" "started_at done_node = None" "finished_at done_node = Some 7"
    by (simp_all add: done_node_def mark_success_def make_node_def)
  from mark_running_idempotent [OF s, of 9] a s show ?thesis by simp
qed

subsection \<open>RetryPolicy\<close>




lemma step_execute_fn_calls: "fn_calls (snd (step_execute w s st)) = fn_calls st @ [s]"
  by (simp add: step_execute_def call_backend_def Let_def split: prod.splits outcome.splits)

lemma record_failure_fn_calls: "fn_calls (record_failure a m st) = fn_calls st"
  by (simp add: record_failure_def)










lemma step_execute_fn_callsD:
  "step_execute w s st = (r, st1) \<Longrightarrow> fn_calls st1 = fn_calls st @ [s]"
  using step_execute_fn_calls [of w s st] by simp



lemma retry_same_all_fail:
  assumes "\<forall>k b x. \<not> truthy (backend_call w k b x)"
  shows "\<forall>st. fst (retry_same w s n st) = None \<and>
              fn_calls (snd (retry_same w s n st)) = fn_calls st @ replicate n s"
proof (induction n)
  case 0
  show ?case by simp
next
  case (Suc n)
  show ?case
  proof
    fix st :: engine
    obtain r st1 where se: "step_execute w s st = (r, st1)"
      by (cases "step_execute w s st") auto
    have "\<not> ar_success r"
      using se assms
      by (auto simp: step_execute_def call_backend_def Let_def truthy_def ar_ok_def ar_fail_def
          split: outcome.splits if_splits)
    moreover have "fn_calls st1 = fn_calls st @ [s]"
      using se by (rule step_execute_fn_callsD)
    ultimately show "fst (retry_same w s (Suc n) st) = None \<and>
        fn_calls (snd (retry_same w s (Suc n) st)) = fn_calls st @ replicate (Suc n) s"
      using se Suc.IH by (simp add: record_failure_fn_calls replicate_app_Cons_same)
  qed
qed



text \<open>
  C1 (the code does otherwise). A command that is refused with \<^verbatim>\<open>Permission denied\<close> on
  every call: the classifier puts the message in the class PERMISSION\_DENIED, whose retry
  budget is 0, but \<^verbatim>\<open>execute_with_retry\<close> never asks the classifier. It makes all three
  attempts with the step's own method (two retries), and a fourth call as the last resort
  of a single-method action.
\<close>

theorem permission_denied_is_retried:
  "error_class (classify ''Permission denied'' ''run_command'' ''system'') = PERMISSION_DENIED \<and>
   retry_budget (classify ''Permission denied'' ''run_command'' ''system'') = 0 \<and>
   \<not> should_retry (classify ''Permission denied'' ''run_command'' ''system'') \<and>
   (\<forall>k b x. backend_call w_denied k b x = Raised ''Permission denied'') \<and>
   fn_calls (snd (retry_same w_denied shadow_step ORCH_MAX_ATTEMPTS st_init)) =
     [shadow_step, shadow_step, shadow_step] \<and>
   fst (execute_with_retry w_denied ORCH_MAX_ATTEMPTS shadow_step st_init) = None \<and>
   fn_calls (snd (execute_with_retry w_denied ORCH_MAX_ATTEMPTS shadow_step st_init)) =
     [shadow_step, shadow_step, shadow_step, shadow_step] \<and>
   get_fails (fail_counts (snd (execute_with_retry w_denied ORCH_MAX_ATTEMPTS shadow_step st_init)))
     ''run_command'' ''system'' = 3"
proof -
  have 1: "error_class (classify ''Permission denied'' ''run_command'' ''system'') = PERMISSION_DENIED"
    by code_simp
  have 2: "retry_budget (classify ''Permission denied'' ''run_command'' ''system'') = 0"
    by code_simp
  have 3: "\<not> should_retry (classify ''Permission denied'' ''run_command'' ''system'')"
    using 2 by (simp add: should_retry_def)
  have 4: "\<forall>k b x. backend_call w_denied k b x = Raised ''Permission denied''"
    by (simp add: w_denied_def)
  have 5: "fn_calls (snd (retry_same w_denied shadow_step ORCH_MAX_ATTEMPTS st_init)) =
     [shadow_step, shadow_step, shadow_step]"
    by code_simp
  have 6: "fst (execute_with_retry w_denied ORCH_MAX_ATTEMPTS shadow_step st_init) = None"
    by code_simp
  have 7: "fn_calls (snd (execute_with_retry w_denied ORCH_MAX_ATTEMPTS shadow_step st_init)) =
     [shadow_step, shadow_step, shadow_step, shadow_step]"
    by code_simp
  have 8: "get_fails (fail_counts (snd (execute_with_retry w_denied ORCH_MAX_ATTEMPTS shadow_step st_init)))
     ''run_command'' ''system'' = 3"
    by code_simp
  from 1 2 3 4 5 6 7 8 show ?thesis by (intro conjI)
qed

subsection \<open>StepGraph: partial rollback\<close>

text \<open>
  What \<^verbatim>\<open>rollback_steps_after\<close> computes: it walks the nodes from the last to the first,
  starts collecting at the given step and so takes that step and the steps before it.
\<close>

lemma rollback_scan_found:
  "rollback_scan fid True ns = map rollback_of (filter (\<lambda>n. status n = SUCCESS \<and> has_rollback n) ns)"
  by (induction ns) (simp_all add: Let_def)

lemma rollback_scan_dropWhile:
  "rollback_scan fid False ns =
     map rollback_of (filter (\<lambda>n. status n = SUCCESS \<and> has_rollback n)
        (dropWhile (\<lambda>n. step_id n \<noteq> fid) ns))"
  by (induction ns) (simp_all add: Let_def rollback_scan_found)

lemma rollback_steps_after_earlier:
  "rollback_steps_after g fid =
     map rollback_of (filter (\<lambda>n. status n = SUCCESS \<and> has_rollback n)
        (dropWhile (\<lambda>n. step_id n \<noteq> fid) (rev (nodes g))))"
  by (simp add: rollback_steps_after_def rollback_scan_dropWhile)


text \<open>
  C4 (the code does otherwise). A chain of three steps, the first two SUCCESS and the
  third FAILED: asked for the rollback from the third step, \<^verbatim>\<open>rollback_steps_after\<close> and
  \<^verbatim>\<open>rollback_from\<close> compensate the second and the first step, which ran before the failure
  point. With all three steps SUCCESS and the first step as the failure point they
  compensate the first step only, and never the steps after it.
\<close>

theorem rollback_steps_after_goes_backwards:
  "map step_id (nodes chain_ssf) = [''s1_abcdef'', ''s2_abcdef'', ''s3_abcdef''] \<and>
   map status (nodes chain_ssf) = [SUCCESS, SUCCESS, FAILED] \<and>
   map rd_for (rollback_steps_after chain_ssf ''s3_abcdef'') = [''s2_abcdef'', ''s1_abcdef''] \<and>
   map rr_source_step (fst (rollback_from w_ok ''s3_abcdef'' chain_ssf st_init)) =
     [''s2_abcdef'', ''s1_abcdef''] \<and>
   map (s_value \<circ> snd) (calls (snd (rollback_from w_ok ''s3_abcdef'' chain_ssf st_init))) =
     [''editor'', ''files''] \<and>
   map status (nodes chain_sss) = [SUCCESS, SUCCESS, SUCCESS] \<and>
   map rd_for (rollback_steps_after chain_sss ''s1_abcdef'') = [''s1_abcdef''] \<and>
   map rd_for (rollback_steps_after chain_sss ''s2_abcdef'') = [''s2_abcdef'', ''s1_abcdef'']"
proof -
  have 1: "map step_id (nodes chain_ssf) = [''s1_abcdef'', ''s2_abcdef'', ''s3_abcdef'']"
    by code_simp
  have 2: "map status (nodes chain_ssf) = [SUCCESS, SUCCESS, FAILED]"
    by code_simp
  have 3: "map rd_for (rollback_steps_after chain_ssf ''s3_abcdef'') = [''s2_abcdef'', ''s1_abcdef'']"
    by code_simp
  have 4: "map rr_source_step (fst (rollback_from w_ok ''s3_abcdef'' chain_ssf st_init)) =
     [''s2_abcdef'', ''s1_abcdef'']"
    by code_simp
  have 5: "map (s_value \<circ> snd) (calls (snd (rollback_from w_ok ''s3_abcdef'' chain_ssf st_init))) =
     [''editor'', ''files'']"
    by code_simp
  have 6: "map status (nodes chain_sss) = [SUCCESS, SUCCESS, SUCCESS]"
    by code_simp
  have 7: "map rd_for (rollback_steps_after chain_sss ''s1_abcdef'') = [''s1_abcdef'']"
    by code_simp
  have 8: "map rd_for (rollback_steps_after chain_sss ''s2_abcdef'') = [''s2_abcdef'', ''s1_abcdef'']"
    by code_simp
  from 1 2 3 4 5 6 7 8 show ?thesis by (intro conjI)
qed

subsection \<open>StepGraph: freezing\<close>


lemma assert_mutable_unfrozen: "\<not> frozen g \<Longrightarrow> assert_mutable g = Inr ()"
  by (simp add: assert_mutable_def)

lemma replan_scan_ids: "map step_id (replan_scan fid r ns) = map step_id ns"
  by (induction ns arbitrary: r) (simp_all add: Let_def reset_for_retry_def)

lemma replan_scan_deps: "map depends_on (replan_scan fid r ns) = map depends_on ns"
  by (induction ns arbitrary: r) (simp_all add: Let_def reset_for_retry_def)

lemma replan_from_structure:
  "map step_id (nodes (replan_from g fid)) = map step_id (nodes g) \<and>
   map depends_on (nodes (replan_from g fid)) = map depends_on (nodes g) \<and>
   id_index (replan_from g fid) = id_index g \<and> frozen (replan_from g fid)"
  by (simp add: replan_from_def replan_scan_ids replan_scan_deps)




subsection \<open>Skipped nodes and the result of a run\<close>

lemma make_result_counts:
  "tr_steps_done (make_result g t e) =
     length (filter (\<lambda>n. status n = SUCCESS \<or> status n = SKIPPED) (nodes g)) \<and>
   tr_steps_total (make_result g t e) = length (nodes g) \<and>
   tr_success (make_result g t e) =
     (e = [] \<and> length (filter (\<lambda>n. status n = SUCCESS \<or> status n = SKIPPED) (nodes g)) =
        length (nodes g))"
proof -
  have d: "is_done = (\<lambda>n. status n = SUCCESS \<or> status n = SKIPPED)"
    by (rule ext) (simp add: is_done_def)
  show ?thesis
    by (simp add: make_result_def progress_def d)
qed


text \<open>
  C10 (the code does otherwise). A plan whose only step is blocked in SAFE\_MODE:
  \<^verbatim>\<open>_exec_graph\<close> skips the node and returns a result with success, one step done of one, as
  the claim says, and no backend call is made. But the state machine is still PLANNED
  then, and the transition to SUCCESS with which \<^verbatim>\<open>run\<close> goes on is not in the table: \<^verbatim>\<open>run\<close>
  raises IllegalTransitionError and returns no result. The state machine stays PLANNED, so
  that the next \<^verbatim>\<open>run\<close> raises at its first transition.
\<close>

theorem all_skipped_run_raises:
  "can_execute (make_mode ''safe'') shadow_step = False \<and>
   (case exec_graph w_ok SAFE_MODE (freeze (graph_of plan_blocked)) (st_init\<lparr>sm_state := PLANNED\<rparr>) of
      (Inr r, g, st) \<Rightarrow>
        tr_success r \<and> tr_steps_done r = 1 \<and> tr_steps_total r = 1 \<and>
        map status (nodes g) = [SKIPPED] \<and> calls st = [] \<and> sm_state st = PLANNED
    | (Inl e, g, st) \<Rightarrow> False) \<and>
   raised (fst (run w_ok (Some plan_blocked) ''safe'' st_init)) =
     Some (IllegalTransitionError PLANNED TS_SUCCESS) \<and>
   sm_state (snd (run w_ok (Some plan_blocked) ''safe'' st_init)) = PLANNED \<and>
   raised (fst (run w_ok (Some plan_blocked) ''safe''
          (snd (run w_ok (Some plan_blocked) ''safe'' st_init)))) =
     Some (IllegalTransitionError PLANNED PLANNED)"
proof -
  have 1: "can_execute (make_mode ''safe'') shadow_step = False"
    by code_simp
  have 2: "(case exec_graph w_ok SAFE_MODE (freeze (graph_of plan_blocked)) (st_init\<lparr>sm_state := PLANNED\<rparr>) of
      (Inr r, g, st) \<Rightarrow>
        tr_success r \<and> tr_steps_done r = 1 \<and> tr_steps_total r = 1 \<and>
        map status (nodes g) = [SKIPPED] \<and> calls st = [] \<and> sm_state st = PLANNED
    | (Inl e, g, st) \<Rightarrow> False)"
    by code_simp
  have 3: "raised (fst (run w_ok (Some plan_blocked) ''safe'' st_init)) =
     Some (IllegalTransitionError PLANNED TS_SUCCESS)"
    by code_simp
  have 4: "sm_state (snd (run w_ok (Some plan_blocked) ''safe'' st_init)) = PLANNED"
    by code_simp
  have 5: "raised (fst (run w_ok (Some plan_blocked) ''safe''
          (snd (run w_ok (Some plan_blocked) ''safe'' st_init)))) =
     Some (IllegalTransitionError PLANNED PLANNED)"
    by code_simp
  from 1 2 3 4 5 show ?thesis by (intro conjI)
qed

subsection \<open>Watchdog\<close>
















end
